theory Spec2Isabelle
  imports Main
begin

section \<open>The browser authentication client of packages/auth (bkper-auth.ts)\<close>

text \<open>
  The class \<open>BkperAuth\<close> keeps one mutable field, the access token, and talks to three
  collaborators of the browser: \<open>fetch\<close>, the cookie jar of js-cookie, and
  \<open>self.location\<close>. The embedding threads one state record through every method. What a
  method does to the outside (a request, a navigation, a callback invocation) is appended to
  a trace, in the order of the source; what the outside answers (the result of \<open>fetch\<close>,
  the outcome of a callback) is an input.
\<close>

subsection \<open>Values\<close>

text \<open>
  A thrown JavaScript value. \<open>Error m\<close> is \<open>new Error(m)\<close>; the other two are the errors
  the platform raises on a property read of \<open>undefined\<close> or \<open>null\<close>, on a failed request,
  and on a body that is no JSON.
\<close>

datatype js_error = Error string | TypeError string | SyntaxError string

text \<open>How a call ends: it returns (a promise resolves) or it throws (a promise rejects).\<close>

datatype completion = Returns | Throws js_error

text \<open>
  The body of a response as \<open>response.json()\<close> delivers it to the handler of line 173:
  the promise rejects (\<open>NotJson\<close>), it resolves with \<open>null\<close>, so that reading
  \<open>data.accessToken\<close> throws, or it resolves with a value whose property
  \<open>accessToken\<close> is \<open>undefined\<close> (\<open>None\<close>) or a string, the declared type
  \<open>string | undefined\<close> of the field it is stored in.
\<close>

datatype json_body = NotJson js_error | JsonNull | JsonData "string option"

text \<open>
  The course of one call of \<open>refresh\<close>, as far as the outside decides it. Building the
  URL at line 163 throws, before \<open>fetch\<close> is called (the provider
  \<open>getAdditionalAuthParams\<close> throws, or \<open>new URLSearchParams\<close> refuses what it
  returned; this needs a configured provider); or \<open>fetch\<close> rejects; or \<open>fetch\<close>
  resolves with a response of some status, status text and body.
\<close>

datatype attempt =
    ProviderThrows js_error
  | NetworkFailure js_error
  | Response nat string json_body

text \<open>The effects a method has on the outside, in the order they happen.\<close>

datatype event =
    Fetch string
  | Assign string
  | OnLoginSuccess
  | OnLoginRequired
  | OnLogout
  | OnTokenRefresh string
  | OnError js_error

text \<open>
  Modelled from the spec: the interface \<open>BkperAuthConfig\<close> of \<open>./types\<close>, which is
  imported by bkper-auth.ts and not part of the sources at hand. Every field is optional.
  A callback is given by how an invocation of it ends, as a function of its argument; what
  the host does inside a callback is the host's and is not part of the client. The
  provider \<open>getAdditionalAuthParams\<close> is given by the entries of the record it returns,
  in the order \<open>Object.entries\<close> enumerates them; a call of \<open>refresh\<close> in which
  the provider throws instead is the course \<open>ProviderThrows\<close> of that call.
\<close>

record BkperAuthConfig =
  cfg_baseUrl :: "string option"
  onLoginSuccess :: "completion option"
  onLoginRequired :: "completion option"
  onLogout :: "completion option"
  onTokenRefresh :: "(string \<Rightarrow> completion) option"
  onError :: "(js_error \<Rightarrow> completion) option"
  getAdditionalAuthParams :: "(string \<times> string) list option"

text \<open>
  The fields of the object (\<open>config\<close>, \<open>baseUrl\<close>, \<open>accessToken\<close>) together with the
  browser around it: the cookie jar, \<open>self.location\<close> (its \<open>href\<close>, or \<open>None\<close> where
  \<open>self.location\<close> is undefined) and the trace of effects.
\<close>

record sys =
  config :: BkperAuthConfig
  baseUrl :: string
  accessToken :: "string option"
  cookies :: "string \<rightharpoonup> string"
  location :: "string option"
  trace :: "event list"

definition DEFAULT_BASE_URL :: string where
  "DEFAULT_BASE_URL = ''https://bkper.app''"

definition ALREADY_LOGGED_COOKIE :: string where
  "ALREADY_LOGGED_COOKIE = ''already-logged''"

definition AUTH_LOGIN_PATH :: string where
  "AUTH_LOGIN_PATH = ''/auth/login''"

definition AUTH_REFRESH_PATH :: string where
  "AUTH_REFRESH_PATH = ''/auth/refresh''"

definition AUTH_LOGOUT_PATH :: string where
  "AUTH_LOGOUT_PATH = ''/auth/logout''"

text \<open>JavaScript truthiness of a value of type \<open>string | undefined\<close>.\<close>

definition truthy :: "string option \<Rightarrow> bool" where
  "truthy v = (case v of None \<Rightarrow> False | Some s \<Rightarrow> s \<noteq> [])"

text \<open>
  The constructor (lines 37 to 40): \<open>config.baseUrl || DEFAULT_BASE_URL\<close> takes the default
  for an absent and for an empty base URL. The cookie jar and the location are the
  browser's.
\<close>

definition new_BkperAuth ::
  "BkperAuthConfig \<Rightarrow> (string \<rightharpoonup> string) \<Rightarrow> string option \<Rightarrow> sys" where
  "new_BkperAuth cfg jar loc =
     \<lparr>config = cfg,
      baseUrl = (case cfg_baseUrl cfg of
                   None \<Rightarrow> DEFAULT_BASE_URL
                 | Some url \<Rightarrow> if url \<noteq> [] then url else DEFAULT_BASE_URL),
      accessToken = None,
      cookies = jar,
      location = loc,
      trace = []\<rparr>"

subsection \<open>Platform functions\<close>

text \<open>
  Strings are their UTF-8 bytes, so every string here is well-formed Unicode (no lone
  surrogate, on which the platform function throws). \<open>encodeURIComponent\<close> keeps the
  unreserved characters of ECMAScript (letters, digits and \<open>- _ . ! ~ * ' ( )\<close>) and
  writes every other byte as \<open>%XX\<close> in upper-case hexadecimal.
\<close>

definition hexDigit :: "nat \<Rightarrow> char" where
  "hexDigit n = ''0123456789ABCDEF'' ! (n mod 16)"

definition percentEncode :: "char \<Rightarrow> string" where
  "percentEncode c = [CHR ''%'', hexDigit (of_char c div 16), hexDigit (of_char c mod 16)]"

definition alphanumeric :: "char \<Rightarrow> bool" where
  "alphanumeric c =
     (c \<in> set ''ABCDEFGHIJKLMNOPQRSTUVWXYZabcdefghijklmnopqrstuvwxyz0123456789'')"

definition uriUnreserved :: "char \<Rightarrow> bool" where
  "uriUnreserved c = (alphanumeric c \<or> c \<in> set (''-_.!~*()'' @ [CHR 0x27]))"

definition encodeURIComponent :: "string \<Rightarrow> string" where
  "encodeURIComponent s =
     concat (map (\<lambda>c. if uriUnreserved c then [c] else percentEncode c) s)"

text \<open>
  \<open>new URLSearchParams(record).toString()\<close>: the application/x-www-form-urlencoded
  serializer of the URL standard. Names and values keep letters, digits and
  \<open>* - . _\<close>, a space becomes \<open>+\<close>, every other byte is percent-encoded; a pair is
  \<open>name=value\<close> and pairs are joined by \<open>&\<close>.
\<close>

definition formEncode :: "string \<Rightarrow> string" where
  "formEncode s =
     concat (map (\<lambda>c. if c = CHR '' '' then ''+''
                      else if alphanumeric c \<or> c \<in> set ''*-._'' then [c]
                      else percentEncode c) s)"

fun joinAmp :: "string list \<Rightarrow> string" where
  "joinAmp [] = []"
| "joinAmp [p] = p"
| "joinAmp (p # q # ps) = p @ ''&'' @ joinAmp (q # ps)"

definition URLSearchParams_toString :: "(string \<times> string) list \<Rightarrow> string" where
  "URLSearchParams_toString entries =
     joinAmp (map (\<lambda>(k, v). formEncode k @ ''='' @ formEncode v) entries)"

subsection \<open>The methods of BkperAuth\<close>

definition getAccessToken :: "sys \<Rightarrow> string option" where
  "getAccessToken s = accessToken s"

text \<open>\<open>Cookies.get(ALREADY_LOGGED_COOKIE) != null\<close>.\<close>

definition hasLoggedInBefore :: "sys \<Rightarrow> bool" where
  "hasLoggedInBefore s = (cookies s ALREADY_LOGGED_COOKIE \<noteq> None)"

text \<open>An effect is appended to the trace; a callback is invoked and ends as it ends.\<close>

definition emit :: "event \<Rightarrow> sys \<Rightarrow> sys" where
  "emit ev s = s\<lparr>trace := trace s @ [ev]\<rparr>"

definition invoke :: "completion \<Rightarrow> event \<Rightarrow> sys \<Rightarrow> completion \<times> sys" where
  "invoke outcome ev s = (outcome, emit ev s)"

text \<open>
  \<open>getLoginUrl\<close> (lines 217 to 232). Reading \<open>self.location.href\<close> throws a TypeError
  where \<open>self.location\<close> is undefined. The loop over \<open>Object.entries\<close> appends one
  \<open>&key=value\<close> per entry; the key is not encoded.
\<close>

definition addParam :: "string \<Rightarrow> string \<times> string \<Rightarrow> string" where
  "addParam loginUrl kv = loginUrl @ ''&'' @ fst kv @ ''='' @ encodeURIComponent (snd kv)"

definition getLoginUrl :: "sys \<Rightarrow> js_error + string" where
  "getLoginUrl s =
     (case location s of
        None \<Rightarrow> Inl (TypeError ''Cannot read properties of undefined (reading href)'')
      | Some href \<Rightarrow>
          (let returnUrl = encodeURIComponent href;
               loginUrl = baseUrl s @ AUTH_LOGIN_PATH @ ''?returnUrl='' @ returnUrl
           in case getAdditionalAuthParams (config s) of
                None \<Rightarrow> Inr loginUrl
              | Some additionalParams \<Rightarrow> Inr (foldl addParam loginUrl additionalParams)))"

text \<open>\<open>getRefreshUrl\<close> (lines 234 to 249); the empty query string is falsy.\<close>

definition getRefreshUrl :: "sys \<Rightarrow> string" where
  "getRefreshUrl s =
     (let refreshUrl = baseUrl s @ AUTH_REFRESH_PATH
      in case getAdditionalAuthParams (config s) of
           None \<Rightarrow> refreshUrl
         | Some additionalParams \<Rightarrow>
             (let queryString = URLSearchParams_toString additionalParams
              in if queryString \<noteq> [] then refreshUrl @ ''?'' @ queryString else refreshUrl))"

definition getLogoutUrl :: "sys \<Rightarrow> string" where
  "getLogoutUrl s = baseUrl s @ AUTH_LOGOUT_PATH"

text \<open>
  \<open>login\<close> (lines 138 to 141). The URL is built first; \<open>self.location?.assign\<close> then
  finds the location defined, since building the URL has read it.
\<close>

definition login :: "sys \<Rightarrow> completion \<times> sys" where
  "login s =
     (case getLoginUrl s of
        Inl e \<Rightarrow> (Throws e, s)
      | Inr loginUrl \<Rightarrow> (Returns, emit (Assign loginUrl) s))"

text \<open>
  \<open>logout\<close> (lines 209 to 215): the callback, then the navigation;
  \<open>self.location?.assign\<close> does nothing where \<open>self.location\<close> is undefined.
\<close>

definition logout :: "sys \<Rightarrow> completion \<times> sys" where
  "logout s =
     (case (case onLogout (config s) of
              Some outcome \<Rightarrow> invoke outcome OnLogout s
            | None \<Rightarrow> (Returns, s)) of
        (Throws e, s1) \<Rightarrow> (Throws e, s1)
      | (Returns, s1) \<Rightarrow>
          (Returns, case location s1 of
                      None \<Rightarrow> s1
                    | Some href \<Rightarrow> emit (Assign (getLogoutUrl s1)) s1))"

text \<open>
  The handler of \<open>fetch(...).then\<close> (lines 171 to 188). On 200 the token is stored and
  the cookie set before the callback runs, and the callback runs only for a truthy token.
\<close>

definition onResponse :: "nat \<Rightarrow> string \<Rightarrow> json_body \<Rightarrow> sys \<Rightarrow> completion \<times> sys" where
  "onResponse status statusText body s =
     (if status = 200 then
        (case body of
           NotJson e \<Rightarrow> (Throws e, s)
         | JsonNull \<Rightarrow> (Throws (TypeError ''Cannot read properties of null (reading accessToken)''), s)
         | JsonData token \<Rightarrow>
             (let s1 = s\<lparr>accessToken := token\<rparr>;
                  s2 = s1\<lparr>cookies := (cookies s1)(ALREADY_LOGGED_COOKIE \<mapsto> ''true'')\<rparr>
              in case onTokenRefresh (config s2) of
                   None \<Rightarrow> (Returns, s2)
                 | Some f \<Rightarrow>
                     (case accessToken s2 of
                        None \<Rightarrow> (Returns, s2)
                      | Some t \<Rightarrow>
                          if t \<noteq> [] then invoke (f t) (OnTokenRefresh t) s2
                          else (Returns, s2))))
      else if status = 401 then (Returns, s\<lparr>accessToken := None\<rparr>)
      else (Throws (Error statusText), s))"

text \<open>
  The \<open>.catch\<close> of lines 189 to 192: a rejection of the chain before it clears the
  token and rejects again with the same error.
\<close>

definition catchClear :: "completion \<times> sys \<Rightarrow> completion \<times> sys" where
  "catchClear cs =
     (case cs of
        (Returns, s1) \<Rightarrow> (Returns, s1)
      | (Throws error, s1) \<Rightarrow> (Throws error, s1\<lparr>accessToken := None\<rparr>))"

text \<open>
  \<open>refresh\<close> (lines 161 to 193). What line 163 throws leaves the method at once: no
  request is made and the \<open>.catch\<close> is not yet attached, so the token stays as it is.
  Otherwise the request is made, and the handler and the \<open>.catch\<close> follow.
\<close>

definition refresh :: "attempt \<Rightarrow> sys \<Rightarrow> completion \<times> sys" where
  "refresh r s =
     (case r of
        ProviderThrows e \<Rightarrow> (Throws e, s)
      | NetworkFailure e \<Rightarrow> catchClear (Throws e, emit (Fetch (getRefreshUrl s)) s)
      | Response status statusText body \<Rightarrow>
          catchClear (onResponse status statusText body (emit (Fetch (getRefreshUrl s)) s)))"

text \<open>\<open>checkAccessToken\<close> (lines 110 to 122).\<close>

definition checkAccessToken :: "sys \<Rightarrow> completion \<times> sys" where
  "checkAccessToken s =
     (if truthy (accessToken s) then
        (case onLoginSuccess (config s) of
           Some outcome \<Rightarrow> invoke outcome OnLoginSuccess s
         | None \<Rightarrow> (Returns, s))
      else
        (case onLoginRequired (config s) of
           Some outcome \<Rightarrow> invoke outcome OnLoginRequired s
         | None \<Rightarrow> (Returns, s)))"

text \<open>
  \<open>init\<close> (lines 98 to 108): the \<open>try\<close> block holds \<open>refresh\<close> and
  \<open>checkAccessToken\<close>; the \<open>catch\<close> block hands the error to \<open>onError\<close> when there is
  one, and what \<open>onError\<close> throws leaves \<open>init\<close>.
\<close>

definition init :: "attempt \<Rightarrow> sys \<Rightarrow> completion \<times> sys" where
  "init r s =
     (case (case refresh r s of
              (Returns, s1) \<Rightarrow> checkAccessToken s1
            | (Throws e, s1) \<Rightarrow> (Throws e, s1)) of
        (Returns, s2) \<Rightarrow> (Returns, s2)
      | (Throws error, s2) \<Rightarrow>
          (case onError (config s2) of
             Some f \<Rightarrow> invoke (f error) (OnError error) s2
           | None \<Rightarrow> (Returns, s2)))"

subsection \<open>Sequences of calls\<close>

text \<open>The host calls the methods in any order; what a call throws is the host's to catch.\<close>

datatype operation =
    CallRefresh attempt
  | CallInit attempt
  | CallLogin
  | CallLogout

fun perform :: "operation \<Rightarrow> sys \<Rightarrow> sys" where
  "perform (CallRefresh r) s = snd (refresh r s)"
| "perform (CallInit r) s = snd (init r s)"
| "perform CallLogin s = snd (login s)"
| "perform CallLogout s = snd (logout s)"

fun run :: "operation list \<Rightarrow> sys \<Rightarrow> sys" where
  "run [] s = s"
| "run (c # cs) s = run cs (perform c s)"

subsection \<open>Observations and example configurations\<close>

text \<open>The effects of a call: what the trace has gained from the state before to the state after.\<close>

definition since :: "sys \<Rightarrow> sys \<Rightarrow> event list" where
  "since s s' = drop (length (trace s)) (trace s')"

text \<open>
  The courses on which \<open>refresh\<close> reaches lines 174 and 175: a response with status 200
  whose body parses to a JSON value other than \<open>null\<close>. Whether the call then resolves
  is another matter: the callback of line 178 may still throw.
\<close>

fun has200Json :: "attempt \<Rightarrow> bool" where
  "has200Json (Response status statusText (JsonData token)) = (status = 200)"
| "has200Json _ = False"

text \<open>The default configuration \<open>{}\<close>, and one with every callback set and returning.\<close>

definition noCallbacks :: BkperAuthConfig where
  "noCallbacks =
     \<lparr>cfg_baseUrl = None, onLoginSuccess = None, onLoginRequired = None, onLogout = None,
      onTokenRefresh = None, onError = None, getAdditionalAuthParams = None\<rparr>"

definition allCallbacks :: BkperAuthConfig where
  "allCallbacks =
     \<lparr>cfg_baseUrl = None, onLoginSuccess = Some Returns, onLoginRequired = Some Returns,
      onLogout = Some Returns, onTokenRefresh = Some (\<lambda>token. Returns),
      onError = Some (\<lambda>error. Returns), getAdditionalAuthParams = None\<rparr>"

text \<open>The page of the package's test setup.\<close>

definition page :: "string option" where
  "page = Some ''http://localhost:3000/app''"

text \<open>The two notifications of \<open>checkAccessToken\<close>.\<close>

fun loginNotification :: "event \<Rightarrow> bool" where
  "loginNotification OnLoginSuccess = True"
| "loginNotification OnLoginRequired = True"
| "loginNotification _ = False"

text \<open>A call of \<open>refresh\<close>, directly or through \<open>init\<close>, on such a course.\<close>

fun call200Json :: "operation \<Rightarrow> bool" where
  "call200Json (CallRefresh r) = has200Json r"
| "call200Json (CallInit r) = has200Json r"
| "call200Json CallLogin = False"
| "call200Json CallLogout = False"

text \<open>
  Two more configurations: a provider that returns \<open>{tenant: "acme"}\<close>, and an
  \<open>onLoginSuccess\<close> that throws.
\<close>

definition tenantConfig :: BkperAuthConfig where
  "tenantConfig = allCallbacks\<lparr>getAdditionalAuthParams := Some [(''tenant'', ''acme'')]\<rparr>"

definition throwingLogin :: BkperAuthConfig where
  "throwingLogin = allCallbacks\<lparr>onLoginSuccess := Some (Throws (Error ''boom''))\<rparr>"

text \<open>
  Two more: an \<open>onTokenRefresh\<close> that throws, and a provider that returns two entries,
  the second with characters that the query string must encode.
\<close>

definition throwingTokenRefresh :: BkperAuthConfig where
  "throwingTokenRefresh =
     allCallbacks\<lparr>onTokenRefresh := Some (\<lambda>token. Throws (TypeError token))\<rparr>"

definition twoParams :: BkperAuthConfig where
  "twoParams =
     allCallbacks\<lparr>getAdditionalAuthParams :=
       Some [(''tenant'', ''acme''), (''return to'', ''a&b=c/d~'')]\<rparr>"

section \<open>Properties\<close>

subsection \<open>Basic facts\<close>

lemma emit_simps [simp]:
  "config (emit ev s) = config s"
  "baseUrl (emit ev s) = baseUrl s"
  "accessToken (emit ev s) = accessToken s"
  "cookies (emit ev s) = cookies s"
  "location (emit ev s) = location s"
  "trace (emit ev s) = trace s @ [ev]"
  by (simp_all add: emit_def)

lemma since_append [simp]: "trace s' = trace s @ evs \<Longrightarrow> since s s' = evs"
  by (simp add: since_def)

lemmas url_defs = DEFAULT_BASE_URL_def AUTH_LOGIN_PATH_def AUTH_REFRESH_PATH_def
  AUTH_LOGOUT_PATH_def ALREADY_LOGGED_COOKIE_def

lemmas example_defs = new_BkperAuth_def noCallbacks_def allCallbacks_def page_def
  tenantConfig_def throwingLogin_def

subsection \<open>The paths of refresh\<close>

lemma refresh_200_data:
  "refresh (Response 200 statusText (JsonData token)) s =
     (let s2 = (emit (Fetch (getRefreshUrl s)) s)
                 \<lparr>accessToken := token, cookies := (cookies s)(ALREADY_LOGGED_COOKIE \<mapsto> ''true'')\<rparr>
      in case onTokenRefresh (config s) of
           None \<Rightarrow> (Returns, s2)
         | Some f \<Rightarrow>
             (case token of
                None \<Rightarrow> (Returns, s2)
              | Some t \<Rightarrow>
                  if t \<noteq> [] then
                    (case f t of
                       Returns \<Rightarrow> (Returns, emit (OnTokenRefresh t) s2)
                     | Throws x \<Rightarrow> (Throws x, (emit (OnTokenRefresh t) s2)\<lparr>accessToken := None\<rparr>))
                  else (Returns, s2)))"
  by (simp add: refresh_def catchClear_def onResponse_def invoke_def Let_def
      split: option.splits completion.splits)

lemma refresh_200_broken:
  "refresh (Response 200 statusText (NotJson e)) s =
     (Throws e, (emit (Fetch (getRefreshUrl s)) s)\<lparr>accessToken := None\<rparr>)"
  "refresh (Response 200 statusText JsonNull) s =
     (Throws (TypeError ''Cannot read properties of null (reading accessToken)''),
      (emit (Fetch (getRefreshUrl s)) s)\<lparr>accessToken := None\<rparr>)"
  by (simp_all add: refresh_def catchClear_def onResponse_def Let_def)

lemma refresh_401:
  "refresh (Response 401 statusText body) s =
     (Returns, (emit (Fetch (getRefreshUrl s)) s)\<lparr>accessToken := None\<rparr>)"
  by (simp add: refresh_def catchClear_def onResponse_def Let_def)

lemma refresh_other_status:
  "status \<noteq> 200 \<Longrightarrow> status \<noteq> 401 \<Longrightarrow>
   refresh (Response status statusText body) s =
     (Throws (Error statusText), (emit (Fetch (getRefreshUrl s)) s)\<lparr>accessToken := None\<rparr>)"
  by (simp add: refresh_def catchClear_def onResponse_def Let_def)

lemma refresh_network_failure:
  "refresh (NetworkFailure e) s =
     (Throws e, (emit (Fetch (getRefreshUrl s)) s)\<lparr>accessToken := None\<rparr>)"
  by (simp add: refresh_def catchClear_def)

lemma refresh_provider_throws: "refresh (ProviderThrows e) s = (Throws e, s)"
  by (simp add: refresh_def)

lemmas refresh_paths = refresh_200_data refresh_200_broken refresh_401 refresh_other_status
  refresh_network_failure refresh_provider_throws

text \<open>Every call takes one of these paths.\<close>

lemma attempt_cases:
  obtains (data) statusText token where "r = Response 200 statusText (JsonData token)"
  | (notjson) statusText e where "r = Response 200 statusText (NotJson e)"
  | (null) statusText where "r = Response 200 statusText JsonNull"
  | (unauthorized) statusText body where "r = Response 401 statusText body"
  | (other) status statusText body where
      "r = Response status statusText body" "status \<noteq> 200" "status \<noteq> 401"
  | (network) e where "r = NetworkFailure e"
  | (provider) e where "r = ProviderThrows e"
proof (cases r)
  case (ProviderThrows e)
  then show ?thesis using provider by blast
next
  case (NetworkFailure e)
  then show ?thesis using network by blast
next
  case (Response status statusText body)
  show ?thesis
  proof (cases "status = 200")
    case True
    then show ?thesis using Response data notjson null by (cases body) auto
  next
    case False
    then show ?thesis using Response unauthorized other by (cases "status = 401") auto
  qed
qed

lemma refresh_frame:
  "config (snd (refresh r s)) = config s"
  "baseUrl (snd (refresh r s)) = baseUrl s"
  "location (snd (refresh r s)) = location s"
  by (cases r rule: attempt_cases;
      simp add: refresh_paths Let_def split: option.splits completion.splits)+

subsection \<open>A successful refresh\<close>

text \<open>
  C1 (as amended). For every call to \<open>refresh\<close> whose response has status 200 and a JSON
  body with a non-empty \<open>accessToken\<close>: the session-hint cookie is set; the effects of the
  call are the request and, when \<open>onTokenRefresh\<close> is configured, exactly one invocation
  of it with that token; the call ends as that invocation ends (it resolves when there is
  no callback); and when it resolves, \<open>getAccessToken\<close> returns that token.
\<close>

theorem refresh_200_stores_token:
  assumes "token \<noteq> []"
    and "refresh (Response 200 statusText (JsonData (Some token))) s = (c, s')"
  shows "hasLoggedInBefore s' \<and>
    since s s' = Fetch (getRefreshUrl s) #
       (case onTokenRefresh (config s) of None \<Rightarrow> [] | Some f \<Rightarrow> [OnTokenRefresh token]) \<and>
    c = (case onTokenRefresh (config s) of None \<Rightarrow> Returns | Some f \<Rightarrow> f token) \<and>
    (c = Returns \<longrightarrow> getAccessToken s' = Some token)"
  using assms
  by (auto simp add: refresh_200_data Let_def hasLoggedInBefore_def getAccessToken_def
      split: option.splits completion.splits)

text \<open>The scenario of the specification: 200 with the token \<open>abc123\<close>.\<close>

theorem refresh_200_stores_token_witness:
  "''abc123'' \<noteq> [] \<and>
   refresh (Response 200 ''OK'' (JsonData (Some ''abc123'')))
       (new_BkperAuth allCallbacks Map.empty page) =
     (Returns,
      \<lparr>config = allCallbacks, baseUrl = ''https://bkper.app'', accessToken = Some ''abc123'',
       cookies = [''already-logged'' \<mapsto> ''true''], location = page,
       trace = [Fetch ''https://bkper.app/auth/refresh'', OnTokenRefresh ''abc123'']\<rparr>) \<and>
   hasLoggedInBefore (snd (refresh (Response 200 ''OK'' (JsonData (Some ''abc123'')))
       (new_BkperAuth allCallbacks Map.empty page))) \<and>
   getAccessToken (snd (refresh (Response 200 ''OK'' (JsonData (Some ''abc123'')))
       (new_BkperAuth allCallbacks Map.empty page))) = Some ''abc123''"
proof -
  let ?s = "new_BkperAuth allCallbacks Map.empty page"
  have ne: "''abc123'' \<noteq> []" by simp
  have run: "refresh (Response 200 ''OK'' (JsonData (Some ''abc123''))) ?s =
     (Returns,
      \<lparr>config = allCallbacks, baseUrl = ''https://bkper.app'', accessToken = Some ''abc123'',
       cookies = [''already-logged'' \<mapsto> ''true''], location = page,
       trace = [Fetch ''https://bkper.app/auth/refresh'', OnTokenRefresh ''abc123'']\<rparr>)"
    by (simp add: refresh_200_data Let_def example_defs url_defs getRefreshUrl_def emit_def)
  from refresh_200_stores_token [OF ne run] ne run show ?thesis
    by simp
qed

text \<open>
  The claim as written fails twice. With the body \<open>{"accessToken": ""}\<close> the configured
  callback is not invoked (line 177 asks for a truthy token). With a callback that throws,
  the call rejects and the \<open>.catch\<close> of line 189 clears the token just stored.
\<close>

theorem refresh_200_counterexample:
  "since (new_BkperAuth allCallbacks Map.empty page)
     (snd (refresh (Response 200 ''OK'' (JsonData (Some '''')))
        (new_BkperAuth allCallbacks Map.empty page)))
     = [Fetch ''https://bkper.app/auth/refresh''] \<and>
   fst (refresh (Response 200 ''OK'' (JsonData (Some ''abc123'')))
     (new_BkperAuth (allCallbacks\<lparr>onTokenRefresh := Some (\<lambda>token. Throws (Error ''boom''))\<rparr>)
        Map.empty page))
     = Throws (Error ''boom'') \<and>
   getAccessToken (snd (refresh (Response 200 ''OK'' (JsonData (Some ''abc123'')))
     (new_BkperAuth (allCallbacks\<lparr>onTokenRefresh := Some (\<lambda>token. Throws (Error ''boom''))\<rparr>)
        Map.empty page)))
     = None"
  by (simp add: refresh_200_data Let_def example_defs url_defs getRefreshUrl_def
      getAccessToken_def)

subsection \<open>A 200 response without a usable token\<close>

text \<open>
  C10 (as amended). For every call to \<open>refresh\<close> whose response has status 200 and
  whose body parses to a JSON value other than \<open>null\<close> that lacks \<open>accessToken\<close>
  or carries the empty string: the call resolves, the session-hint cookie is set,
  \<open>onTokenRefresh\<close> is not invoked (the only effect is the request), and
  \<open>getAccessToken\<close> returns what the body carried: absent for a missing field, the
  empty string, which is falsy, for an empty one. For the body \<open>null\<close>, reading
  \<open>accessToken\<close> throws: the call rejects, the cookie is left as it was and
  \<open>getAccessToken\<close> returns absent.
\<close>

theorem refresh_200_without_token:
  "(token = None \<or> token = Some [] \<longrightarrow>
      refresh (Response 200 statusText (JsonData token)) s =
        (Returns, (emit (Fetch (getRefreshUrl s)) s)
           \<lparr>accessToken := token, cookies := (cookies s)(ALREADY_LOGGED_COOKIE \<mapsto> ''true'')\<rparr>) \<and>
      hasLoggedInBefore (snd (refresh (Response 200 statusText (JsonData token)) s)) \<and>
      getAccessToken (snd (refresh (Response 200 statusText (JsonData token)) s)) = token \<and>
      \<not> truthy (getAccessToken (snd (refresh (Response 200 statusText (JsonData token)) s))) \<and>
      since s (snd (refresh (Response 200 statusText (JsonData token)) s)) =
        [Fetch (getRefreshUrl s)]) \<and>
   (\<exists>e. refresh (Response 200 statusText JsonNull) s =
      (Throws e, (emit (Fetch (getRefreshUrl s)) s)\<lparr>accessToken := None\<rparr>)) \<and>
   (hasLoggedInBefore (snd (refresh (Response 200 statusText JsonNull) s)) \<longleftrightarrow>
      hasLoggedInBefore s) \<and>
   getAccessToken (snd (refresh (Response 200 statusText JsonNull) s)) = None"
  by (auto simp add: refresh_paths Let_def hasLoggedInBefore_def getAccessToken_def
      truthy_def split: option.splits)

text \<open>Both bodies on a fresh client: \<open>{}\<close> and \<open>{"accessToken": ""}\<close>.\<close>

theorem refresh_200_without_token_witness:
  "refresh (Response 200 ''OK'' (JsonData None)) (new_BkperAuth allCallbacks Map.empty page) =
     (Returns,
      \<lparr>config = allCallbacks, baseUrl = ''https://bkper.app'', accessToken = None,
       cookies = [''already-logged'' \<mapsto> ''true''], location = page,
       trace = [Fetch ''https://bkper.app/auth/refresh'']\<rparr>) \<and>
   hasLoggedInBefore (snd (refresh (Response 200 ''OK'' (JsonData None))
     (new_BkperAuth allCallbacks Map.empty page))) \<and>
   getAccessToken (snd (refresh (Response 200 ''OK'' (JsonData None))
     (new_BkperAuth allCallbacks Map.empty page))) = None \<and>
   refresh (Response 200 ''OK'' (JsonData (Some ''''))) (new_BkperAuth allCallbacks Map.empty page) =
     (Returns,
      \<lparr>config = allCallbacks, baseUrl = ''https://bkper.app'', accessToken = Some '''',
       cookies = [''already-logged'' \<mapsto> ''true''], location = page,
       trace = [Fetch ''https://bkper.app/auth/refresh'']\<rparr>)"
  using refresh_200_without_token [of None "''OK''" "new_BkperAuth allCallbacks Map.empty page"]
    refresh_200_without_token [of "Some ''''" "''OK''" "new_BkperAuth allCallbacks Map.empty page"]
  by (simp add: example_defs url_defs getRefreshUrl_def emit_def hasLoggedInBefore_def
      getAccessToken_def)

text \<open>
  With the body \<open>{"accessToken": ""}\<close> the getter returns the empty string, not
  absent; with the body \<open>null\<close>, which has no \<open>accessToken\<close> either, the call
  rejects and the cookie is not set.
\<close>

theorem refresh_200_empty_token_counterexample:
  "getAccessToken (snd (refresh (Response 200 ''OK'' (JsonData (Some '''')))
      (new_BkperAuth allCallbacks Map.empty page))) = Some '''' \<and>
   getAccessToken (snd (refresh (Response 200 ''OK'' (JsonData (Some '''')))
      (new_BkperAuth allCallbacks Map.empty page))) \<noteq> None \<and>
   fst (refresh (Response 200 ''OK'' JsonNull) (new_BkperAuth allCallbacks Map.empty page)) =
     Throws (TypeError ''Cannot read properties of null (reading accessToken)'') \<and>
   \<not> hasLoggedInBefore (snd (refresh (Response 200 ''OK'' JsonNull)
      (new_BkperAuth allCallbacks Map.empty page)))"
  by (simp add: refresh_paths Let_def example_defs getAccessToken_def hasLoggedInBefore_def)

subsection \<open>How refresh ends\<close>

lemma refresh_resolves_iff:
  "fst (refresh r s) = Returns \<longleftrightarrow>
     (\<exists>statusText body. r = Response 401 statusText body) \<or>
     (\<exists>statusText token. r = Response 200 statusText (JsonData token) \<and>
        (case onTokenRefresh (config s) of
           None \<Rightarrow> True
         | Some f \<Rightarrow> (case token of None \<Rightarrow> True | Some t \<Rightarrow> t = [] \<or> f t = Returns)))"
  by (cases r rule: attempt_cases;
      auto simp add: refresh_paths Let_def split: option.splits completion.splits if_splits)

lemma refresh_not_200_clears:
  assumes "r = Response status statusText body"
    and "status \<noteq> 200 \<or> body = JsonNull \<or> (\<exists>e. body = NotJson e)"
  shows "accessToken (snd (refresh r s)) = None"
  using assms
  by (cases r rule: attempt_cases;
      auto simp add: refresh_paths Let_def split: option.splits completion.splits if_splits)

text \<open>
  C2 (as amended). \<open>refresh\<close> resolves exactly when a response arrives whose status is
  401, or whose status is 200 with a body that parses to a JSON value other than
  \<open>null\<close> and the \<open>onTokenRefresh\<close> callback, where it runs, returns. On 401
  it clears the token and resolves, and its only effect is the request (no callback). On
  any status other than 200 and 401 it rejects with an error carrying the status text. A
  failed request and an unreadable body reject with their own error, a \<open>null\<close> body
  with a TypeError. After every \<open>refresh\<close> whose request ended in a 401, in another
  status than 200, in a network failure or in an unreadable or \<open>null\<close> body,
  \<open>getAccessToken\<close> returns absent. A \<open>refresh\<close> in which building the URL
  throws makes no request, rejects with what was thrown and leaves the token as it was.
\<close>

theorem refresh_outcomes:
  "(fst (refresh r s) = Returns \<longleftrightarrow>
      (\<exists>statusText body. r = Response 401 statusText body) \<or>
      (\<exists>statusText token. r = Response 200 statusText (JsonData token) \<and>
         (case onTokenRefresh (config s) of
            None \<Rightarrow> True
          | Some f \<Rightarrow> (case token of None \<Rightarrow> True | Some t \<Rightarrow> t = [] \<or> f t = Returns)))) \<and>
   refresh (Response 401 statusText body) s =
      (Returns, (emit (Fetch (getRefreshUrl s)) s)\<lparr>accessToken := None\<rparr>) \<and>
   since s (snd (refresh (Response 401 statusText body) s)) = [Fetch (getRefreshUrl s)] \<and>
   (status \<noteq> 200 \<and> status \<noteq> 401 \<longrightarrow>
      refresh (Response status statusText body) s =
        (Throws (Error statusText), (emit (Fetch (getRefreshUrl s)) s)\<lparr>accessToken := None\<rparr>)) \<and>
   refresh (NetworkFailure e) s =
      (Throws e, (emit (Fetch (getRefreshUrl s)) s)\<lparr>accessToken := None\<rparr>) \<and>
   refresh (Response 200 statusText (NotJson e)) s =
      (Throws e, (emit (Fetch (getRefreshUrl s)) s)\<lparr>accessToken := None\<rparr>) \<and>
   (\<exists>e'. refresh (Response 200 statusText JsonNull) s =
      (Throws e', (emit (Fetch (getRefreshUrl s)) s)\<lparr>accessToken := None\<rparr>)) \<and>
   (r = Response status statusText body \<and>
      (status \<noteq> 200 \<or> body = JsonNull \<or> (\<exists>e'. body = NotJson e')) \<longrightarrow>
        getAccessToken (snd (refresh r s)) = None) \<and>
   getAccessToken (snd (refresh (NetworkFailure e) s)) = None \<and>
   refresh (ProviderThrows e) s = (Throws e, s)"
  using refresh_resolves_iff [of r s] refresh_not_200_clears [of r status statusText body s]
  by (simp add: refresh_paths getAccessToken_def)

text \<open>
  The scenarios of the specification: 401 resolves, 500 rejects with the status text and
  clears a token held before.
\<close>

theorem refresh_outcomes_witness:
  "fst (refresh (Response 401 ''Unauthorized'' JsonNull)
      (new_BkperAuth allCallbacks Map.empty page)) = Returns \<and>
   fst (refresh (Response 500 ''Server Error'' JsonNull)
      (new_BkperAuth allCallbacks Map.empty page)) = Throws (Error ''Server Error'') \<and>
   getAccessToken (snd (refresh (Response 500 ''Server Error'' JsonNull)
      ((new_BkperAuth allCallbacks Map.empty page)\<lparr>accessToken := Some ''abc123''\<rparr>))) = None"
proof -
  let ?s = "new_BkperAuth allCallbacks Map.empty page"
  let ?t = "?s\<lparr>accessToken := Some ''abc123''\<rparr>"
  have status: "(500::nat) \<noteq> 200 \<and> (500::nat) \<noteq> 401"
    by simp
  have unauthorized: "fst (refresh (Response 401 ''Unauthorized'' JsonNull) ?s) = Returns"
    using refresh_outcomes [where r = "Response 401 ''Unauthorized'' JsonNull" and s = ?s
        and statusText = "''Unauthorized''" and body = JsonNull and e = "Error ''''"]
    by simp
  have server_error:
    "fst (refresh (Response 500 ''Server Error'' JsonNull) ?s) = Throws (Error ''Server Error'')"
    using status refresh_outcomes [where r = "NetworkFailure (Error '''')" and s = ?s
        and status = 500 and statusText = "''Server Error''" and body = JsonNull
        and e = "Error ''''"]
    by simp
  have cleared: "getAccessToken (snd (refresh (Response 500 ''Server Error'' JsonNull) ?t)) = None"
    using status refresh_outcomes [where r = "Response 500 ''Server Error'' JsonNull" and s = ?t
        and status = 500 and statusText = "''Server Error''" and body = JsonNull
        and e = "Error ''''"]
    by (simp add: getAccessToken_def)
  from unauthorized server_error cleared show ?thesis by simp
qed

text \<open>
  Two responses with status 200 on which the call rejects: one whose body is no JSON, and
  one with a token, where the \<open>onTokenRefresh\<close> callback throws. And a call that did
  not complete with HTTP 200 and keeps the token: the provider throws at line 163.
\<close>

theorem refresh_200_rejects_counterexample:
  "fst (refresh (Response 200 ''OK'' (NotJson (SyntaxError ''Unexpected token <'')))
      (new_BkperAuth allCallbacks Map.empty page)) = Throws (SyntaxError ''Unexpected token <'') \<and>
   fst (refresh (Response 200 ''OK'' (JsonData (Some ''t0k3n'')))
      (new_BkperAuth (noCallbacks\<lparr>onTokenRefresh := Some (\<lambda>token. Throws (TypeError token))\<rparr>)
         Map.empty page)) = Throws (TypeError ''t0k3n'') \<and>
   refresh (ProviderThrows (Error ''no tenant''))
      ((new_BkperAuth tenantConfig Map.empty page)\<lparr>accessToken := Some ''abc123''\<rparr>) =
     (Throws (Error ''no tenant''),
      (new_BkperAuth tenantConfig Map.empty page)\<lparr>accessToken := Some ''abc123''\<rparr>) \<and>
   getAccessToken (snd (refresh (ProviderThrows (Error ''no tenant''))
      ((new_BkperAuth tenantConfig Map.empty page)\<lparr>accessToken := Some ''abc123''\<rparr>))) =
     Some ''abc123''"
  by (simp add: refresh_paths Let_def example_defs getAccessToken_def)

subsection \<open>init\<close>

lemma refresh_effects:
  "\<exists>evs. trace (snd (refresh r s)) = trace s @ evs \<and> filter loginNotification evs = []"
  by (cases r rule: attempt_cases;
      auto simp add: refresh_paths Let_def split: option.splits completion.splits if_splits)

lemma checkAccessToken_cases:
  "checkAccessToken s =
     (case (if truthy (accessToken s) then onLoginSuccess (config s)
            else onLoginRequired (config s)) of
        None \<Rightarrow> (Returns, s)
      | Some outcome \<Rightarrow>
          (outcome, emit (if truthy (accessToken s) then OnLoginSuccess else OnLoginRequired) s))"
  by (simp add: checkAccessToken_def invoke_def split: option.splits)

lemma init_refresh_rejected:
  assumes "refresh r s = (Throws e, s1)"
  shows "init r s =
     (case onError (config s) of
        None \<Rightarrow> (Returns, s1)
      | Some f \<Rightarrow> (f e, emit (OnError e) s1))"
proof -
  have "config s1 = config s"
    using refresh_frame(1) [of r s] assms by simp
  then show ?thesis
    using assms by (simp add: init_def invoke_def split: option.splits)
qed

lemma init_refresh_resolved:
  assumes "refresh r s = (Returns, s1)"
  shows "init r s =
     (case checkAccessToken s1 of
        (Returns, s2) \<Rightarrow> (Returns, s2)
      | (Throws x, s2) \<Rightarrow>
          (case onError (config s) of
             None \<Rightarrow> (Returns, s2)
           | Some f \<Rightarrow> (f x, emit (OnError x) s2)))"
proof -
  have "config s1 = config s"
    using refresh_frame(1) [of r s] assms by simp
  then have "config (snd (checkAccessToken s1)) = config s"
    by (simp add: checkAccessToken_cases split: option.splits)
  then show ?thesis
    using assms
    by (auto simp add: init_def invoke_def split: option.splits prod.splits completion.splits)
qed

lemma init_throws_only_from_onError:
  assumes "fst (init r s) = Throws x"
  shows "\<exists>f e. onError (config s) = Some f \<and> f e = Throws x"
proof (cases "refresh r s")
  case (Pair c s1)
  show ?thesis
  proof (cases c)
    case Returns
    with Pair assms show ?thesis
      by (auto simp add: init_refresh_resolved split: prod.splits completion.splits option.splits)
  next
    case (Throws e)
    with Pair assms show ?thesis
      by (auto simp add: init_refresh_rejected split: option.splits)
  qed
qed

text \<open>
  C3 (as amended). When \<open>refresh\<close> rejects inside \<open>init\<close>, the error is caught: if
  \<open>onError\<close> is configured it is invoked with that error, otherwise the error is dropped;
  neither login-succeeded nor login-required is invoked; and \<open>init\<close> ends as the
  invocation of \<open>onError\<close> ends. It resolves when there is no \<open>onError\<close> or
  \<open>onError\<close> returns, and the only exception that leaves it is one thrown by
  \<open>onError\<close> itself.
\<close>

theorem init_reports_refresh_error:
  assumes "refresh r s = (Throws e, s1)"
  shows "init r s =
      (case onError (config s) of
         None \<Rightarrow> (Returns, s1)
       | Some f \<Rightarrow> (f e, emit (OnError e) s1)) \<and>
    filter loginNotification (since s (snd (init r s))) = [] \<and>
    (onError (config s) = None \<longrightarrow> fst (init r s) = Returns) \<and>
    (\<forall>f. onError (config s) = Some f \<and> f e = Returns \<longrightarrow> fst (init r s) = Returns) \<and>
    (\<forall>x. fst (init r s) = Throws x \<longrightarrow> (\<exists>f. onError (config s) = Some f \<and> f e = Throws x))"
proof -
  obtain evs where evs: "trace s1 = trace s @ evs" "filter loginNotification evs = []"
    using refresh_effects [of r s] assms by auto
  show ?thesis
    using evs by (auto simp add: init_refresh_rejected [OF assms] split: option.splits)
qed

text \<open>The scenario of the specification: 500 with the status text \<open>Server Error\<close>.\<close>

theorem init_reports_refresh_error_witness:
  "refresh (Response 500 ''Server Error'' JsonNull) (new_BkperAuth allCallbacks Map.empty page) =
     (Throws (Error ''Server Error''),
      \<lparr>config = allCallbacks, baseUrl = ''https://bkper.app'', accessToken = None,
       cookies = Map.empty, location = page,
       trace = [Fetch ''https://bkper.app/auth/refresh'']\<rparr>) \<and>
   init (Response 500 ''Server Error'' JsonNull) (new_BkperAuth allCallbacks Map.empty page) =
     (Returns,
      \<lparr>config = allCallbacks, baseUrl = ''https://bkper.app'', accessToken = None,
       cookies = Map.empty, location = page,
       trace = [Fetch ''https://bkper.app/auth/refresh'', OnError (Error ''Server Error'')]\<rparr>)"
proof -
  have run: "refresh (Response 500 ''Server Error'' JsonNull)
       (new_BkperAuth allCallbacks Map.empty page) =
     (Throws (Error ''Server Error''),
      \<lparr>config = allCallbacks, baseUrl = ''https://bkper.app'', accessToken = None,
       cookies = Map.empty, location = page,
       trace = [Fetch ''https://bkper.app/auth/refresh'']\<rparr>)"
    by (simp add: refresh_paths example_defs url_defs getRefreshUrl_def emit_def)
  from init_reports_refresh_error [OF run] run show ?thesis
    by (simp add: example_defs emit_def)
qed

text \<open>An \<open>onError\<close> that rethrows what it is given: \<open>init\<close> throws on a 500.\<close>

theorem init_throwing_onError_counterexample:
  "fst (init (Response 500 ''Server Error'' JsonNull)
      (new_BkperAuth (allCallbacks\<lparr>onError := Some (\<lambda>error. Throws error)\<rparr>) Map.empty page))
     = Throws (Error ''Server Error'')"
  by (simp add: init_def refresh_paths example_defs invoke_def)

text \<open>
  C4 (as amended). Every call to \<open>init\<close> invokes at most one of login-succeeded and
  login-required, never both. When \<open>refresh\<close> resolves, \<open>init\<close> takes exactly one
  branch, login-succeeded for a token that is present and not empty and login-required
  otherwise, and invokes the callback of that branch when it is configured. When
  \<open>refresh\<close> rejects, it invokes neither.
\<close>

theorem init_login_notifications:
  "(refresh r s = (Returns, s1) \<longrightarrow>
      filter loginNotification (since s (snd (init r s))) =
        (if truthy (accessToken s1)
         then (case onLoginSuccess (config s) of None \<Rightarrow> [] | Some outcome \<Rightarrow> [OnLoginSuccess])
         else (case onLoginRequired (config s) of None \<Rightarrow> [] | Some outcome \<Rightarrow> [OnLoginRequired]))) \<and>
   (refresh r s = (Throws e, s1) \<longrightarrow> filter loginNotification (since s (snd (init r s))) = []) \<and>
   length (filter loginNotification (since s (snd (init r s)))) \<le> 1"
proof -
  obtain evs where evs:
    "trace (snd (refresh r s)) = trace s @ evs" "filter loginNotification evs = []"
    using refresh_effects [of r s] by auto
  have cfg: "config (snd (refresh r s)) = config s"
    by (rule refresh_frame)
  have resolved: "filter loginNotification (since s (snd (init r s))) =
        (if truthy (accessToken s1)
         then (case onLoginSuccess (config s) of None \<Rightarrow> [] | Some outcome \<Rightarrow> [OnLoginSuccess])
         else (case onLoginRequired (config s) of None \<Rightarrow> [] | Some outcome \<Rightarrow> [OnLoginRequired]))"
    if "refresh r s = (Returns, s1)"
    using that evs cfg
    by (auto simp add: init_refresh_resolved checkAccessToken_cases
        split: option.splits completion.splits)
  have rejected: "filter loginNotification (since s (snd (init r s))) = []"
    if "refresh r s = (Throws e, s1)" for e s1
    using that evs by (auto simp add: init_refresh_rejected split: option.splits)
  have "length (filter loginNotification (since s (snd (init r s)))) \<le> 1"
  proof (cases "refresh r s")
    case (Pair c s')
    show ?thesis
    proof (cases c)
      case Returns
      with Pair evs cfg show ?thesis
        by (auto simp add: init_refresh_resolved checkAccessToken_cases
            split: option.splits completion.splits)
    next
      case (Throws x)
      with Pair rejected show ?thesis by simp
    qed
  qed
  with resolved rejected show ?thesis by blast
qed

text \<open>The scenario of the specification: 401, and \<open>init\<close> invokes login-required.\<close>

theorem init_login_notifications_witness:
  "refresh (Response 401 ''Unauthorized'' JsonNull) (new_BkperAuth allCallbacks Map.empty page) =
     (Returns,
      \<lparr>config = allCallbacks, baseUrl = ''https://bkper.app'', accessToken = None,
       cookies = Map.empty, location = page,
       trace = [Fetch ''https://bkper.app/auth/refresh'']\<rparr>) \<and>
   filter loginNotification
     (since (new_BkperAuth allCallbacks Map.empty page)
        (snd (init (Response 401 ''Unauthorized'' JsonNull)
           (new_BkperAuth allCallbacks Map.empty page)))) = [OnLoginRequired]"
proof -
  have run: "refresh (Response 401 ''Unauthorized'' JsonNull)
       (new_BkperAuth allCallbacks Map.empty page) =
     (Returns,
      \<lparr>config = allCallbacks, baseUrl = ''https://bkper.app'', accessToken = None,
       cookies = Map.empty, location = page,
       trace = [Fetch ''https://bkper.app/auth/refresh'']\<rparr>)"
    by (simp add: refresh_paths example_defs url_defs getRefreshUrl_def emit_def)
  from init_login_notifications [of "Response 401 ''Unauthorized'' JsonNull"
      "new_BkperAuth allCallbacks Map.empty page" _ "Error ''''"] run
  show ?thesis
    by (simp add: example_defs truthy_def)
qed

text \<open>
  On a 500, with every callback configured, the effects of \<open>init\<close> are the request and
  the error notification: neither login-succeeded nor login-required.
\<close>

theorem init_500_counterexample:
  "since (new_BkperAuth allCallbacks Map.empty page)
     (snd (init (Response 500 ''Server Error'' JsonNull)
        (new_BkperAuth allCallbacks Map.empty page))) =
     [Fetch ''https://bkper.app/auth/refresh'', OnError (Error ''Server Error'')]"
  by (simp add: init_def refresh_paths example_defs invoke_def url_defs getRefreshUrl_def)

subsection \<open>Callbacks that throw\<close>

text \<open>
  C9 (as amended). What \<open>onLogout\<close> throws leaves \<open>logout\<close>, and what
  \<open>onTokenRefresh\<close> throws makes \<open>refresh\<close> reject with it. Inside \<open>init\<close> the
  \<open>try\<close> block holds both \<open>refresh\<close> and \<open>checkAccessToken\<close>: what
  \<open>onTokenRefresh\<close> throws during \<open>init\<close>, like every other rejection of
  \<open>refresh\<close>, and what the login-succeeded or login-required callback throws, is caught
  and handed to \<open>onError\<close> when that is configured, and dropped otherwise, so that
  \<open>init\<close> ends as \<open>onError\<close> ends or resolves. Only what \<open>onError\<close> itself
  throws leaves \<open>init\<close>.
\<close>

theorem callback_exceptions:
  "(onLogout (config s) = Some (Throws x) \<longrightarrow> logout s = (Throws x, emit OnLogout s)) \<and>
   (onTokenRefresh (config s) = Some f \<and> token \<noteq> [] \<and> f token = Throws x \<longrightarrow>
      fst (refresh (Response 200 statusText (JsonData (Some token))) s) = Throws x \<and>
      init (Response 200 statusText (JsonData (Some token))) s =
        (case onError (config s) of
           None \<Rightarrow> (Returns, snd (refresh (Response 200 statusText (JsonData (Some token))) s))
         | Some g \<Rightarrow>
             (g x, emit (OnError x)
                (snd (refresh (Response 200 statusText (JsonData (Some token))) s))))) \<and>
   (refresh r s = (Returns, s1) \<and>
    (if truthy (accessToken s1) then onLoginSuccess (config s) else onLoginRequired (config s))
      = Some (Throws x) \<longrightarrow>
      init r s =
        (case onError (config s) of
           None \<Rightarrow>
             (Returns, emit (if truthy (accessToken s1) then OnLoginSuccess else OnLoginRequired) s1)
         | Some g \<Rightarrow>
             (g x, emit (OnError x)
                (emit (if truthy (accessToken s1) then OnLoginSuccess else OnLoginRequired) s1)))) \<and>
   (refresh r s = (Throws e, s1) \<longrightarrow>
      init r s =
        (case onError (config s) of
           None \<Rightarrow> (Returns, s1)
         | Some g \<Rightarrow> (g e, emit (OnError e) s1))) \<and>
   (fst (init r s) = Throws x \<longrightarrow> (\<exists>g e. onError (config s) = Some g \<and> g e = Throws x))"
proof -
  have cfg: "config (snd (refresh r s)) = config s"
    by (rule refresh_frame)
  have a: "onLogout (config s) = Some (Throws x) \<longrightarrow> logout s = (Throws x, emit OnLogout s)"
    by (simp add: logout_def invoke_def)
  have b: "fst (refresh (Response 200 statusText (JsonData (Some token))) s) = Throws x \<and>
      init (Response 200 statusText (JsonData (Some token))) s =
        (case onError (config s) of
           None \<Rightarrow> (Returns, snd (refresh (Response 200 statusText (JsonData (Some token))) s))
         | Some g \<Rightarrow>
             (g x, emit (OnError x)
                (snd (refresh (Response 200 statusText (JsonData (Some token))) s))))"
    if h: "onTokenRefresh (config s) = Some f \<and> token \<noteq> [] \<and> f token = Throws x"
  proof -
    obtain s' where r: "refresh (Response 200 statusText (JsonData (Some token))) s = (Throws x, s')"
      using h by (simp add: refresh_200_data Let_def)
    show ?thesis
      using init_refresh_rejected [OF r] r by (simp split: option.splits)
  qed
  have c: "refresh r s = (Returns, s1) \<and>
    (if truthy (accessToken s1) then onLoginSuccess (config s) else onLoginRequired (config s))
      = Some (Throws x) \<longrightarrow>
      init r s =
        (case onError (config s) of
           None \<Rightarrow>
             (Returns, emit (if truthy (accessToken s1) then OnLoginSuccess else OnLoginRequired) s1)
         | Some g \<Rightarrow>
             (g x, emit (OnError x)
                (emit (if truthy (accessToken s1) then OnLoginSuccess else OnLoginRequired) s1)))"
    using cfg
    by (auto simp add: init_refresh_resolved checkAccessToken_cases split: option.splits)
  have d: "refresh r s = (Throws e, s1) \<longrightarrow>
      init r s =
        (case onError (config s) of
           None \<Rightarrow> (Returns, s1)
         | Some g \<Rightarrow> (g e, emit (OnError e) s1))"
    using init_refresh_rejected [of r s e s1] by blast
  have e: "fst (init r s) = Throws x \<longrightarrow> (\<exists>g e. onError (config s) = Some g \<and> g e = Throws x)"
    using init_throws_only_from_onError [of r s x] by blast
  from a b c d e show ?thesis by blast
qed

text \<open>
  A login-succeeded callback that throws and an \<open>onTokenRefresh\<close> that throws, each
  with \<open>onError\<close> configured: the exception is reported to \<open>onError\<close> and
  \<open>init\<close> resolves.
\<close>

theorem callback_exceptions_witness:
  "refresh (Response 200 ''OK'' (JsonData (Some ''abc123'')))
       (new_BkperAuth throwingLogin Map.empty page) =
     (Returns,
      \<lparr>config = throwingLogin, baseUrl = ''https://bkper.app'', accessToken = Some ''abc123'',
       cookies = [''already-logged'' \<mapsto> ''true''], location = page,
       trace = [Fetch ''https://bkper.app/auth/refresh'', OnTokenRefresh ''abc123'']\<rparr>) \<and>
   init (Response 200 ''OK'' (JsonData (Some ''abc123'')))
       (new_BkperAuth throwingLogin Map.empty page) =
     (Returns,
      \<lparr>config = throwingLogin, baseUrl = ''https://bkper.app'', accessToken = Some ''abc123'',
       cookies = [''already-logged'' \<mapsto> ''true''], location = page,
       trace = [Fetch ''https://bkper.app/auth/refresh'', OnTokenRefresh ''abc123'',
                OnLoginSuccess, OnError (Error ''boom'')]\<rparr>) \<and>
   init (Response 200 ''OK'' (JsonData (Some ''abc123'')))
       (new_BkperAuth throwingTokenRefresh Map.empty page) =
     (Returns,
      \<lparr>config = throwingTokenRefresh, baseUrl = ''https://bkper.app'', accessToken = None,
       cookies = [''already-logged'' \<mapsto> ''true''], location = page,
       trace = [Fetch ''https://bkper.app/auth/refresh'', OnTokenRefresh ''abc123'',
                OnError (TypeError ''abc123'')]\<rparr>)"
proof -
  let ?s = "new_BkperAuth throwingLogin Map.empty page"
  let ?s1 = "\<lparr>config = throwingLogin, baseUrl = ''https://bkper.app'',
       accessToken = Some ''abc123'',
       cookies = [''already-logged'' \<mapsto> ''true''], location = page,
       trace = [Fetch ''https://bkper.app/auth/refresh'', OnTokenRefresh ''abc123'']\<rparr>"
  let ?t = "new_BkperAuth throwingTokenRefresh Map.empty page"
  have run: "refresh (Response 200 ''OK'' (JsonData (Some ''abc123''))) ?s = (Returns, ?s1)"
    by (simp add: refresh_200_data Let_def example_defs url_defs getRefreshUrl_def emit_def)
  have cb: "(if truthy (accessToken ?s1) then onLoginSuccess (config ?s)
             else onLoginRequired (config ?s)) = Some (Throws (Error ''boom''))"
    by (simp add: truthy_def example_defs)
  have tr: "onTokenRefresh (config ?t) = Some (\<lambda>token. Throws (TypeError token)) \<and>
      ''abc123'' \<noteq> [] \<and> (\<lambda>token. Throws (TypeError token)) ''abc123'' = Throws (TypeError ''abc123'')"
    by (simp add: example_defs throwingTokenRefresh_def)
  have rt: "snd (refresh (Response 200 ''OK'' (JsonData (Some ''abc123''))) ?t) =
      \<lparr>config = throwingTokenRefresh, baseUrl = ''https://bkper.app'', accessToken = None,
       cookies = [''already-logged'' \<mapsto> ''true''], location = page,
       trace = [Fetch ''https://bkper.app/auth/refresh'', OnTokenRefresh ''abc123'']\<rparr>"
    by (simp add: refresh_200_data Let_def example_defs throwingTokenRefresh_def url_defs
        getRefreshUrl_def emit_def)
  from callback_exceptions [of ?s "Error ''boom''" "\<lambda>t. Returns" "''x''" "''OK''"
      "Response 200 ''OK'' (JsonData (Some ''abc123''))" ?s1 "Error ''e''"] run cb
  have one: "init (Response 200 ''OK'' (JsonData (Some ''abc123''))) ?s =
     (Returns,
      \<lparr>config = throwingLogin, baseUrl = ''https://bkper.app'', accessToken = Some ''abc123'',
       cookies = [''already-logged'' \<mapsto> ''true''], location = page,
       trace = [Fetch ''https://bkper.app/auth/refresh'', OnTokenRefresh ''abc123'',
                OnLoginSuccess, OnError (Error ''boom'')]\<rparr>)"
    by (simp add: example_defs emit_def truthy_def)
  from callback_exceptions [of ?t "TypeError ''abc123''" "\<lambda>token. Throws (TypeError token)"
      "''abc123''" "''OK''" "NetworkFailure (Error '''')" ?t "Error ''e''"] tr rt
  have two: "init (Response 200 ''OK'' (JsonData (Some ''abc123''))) ?t =
     (Returns,
      \<lparr>config = throwingTokenRefresh, baseUrl = ''https://bkper.app'', accessToken = None,
       cookies = [''already-logged'' \<mapsto> ''true''], location = page,
       trace = [Fetch ''https://bkper.app/auth/refresh'', OnTokenRefresh ''abc123'',
                OnError (TypeError ''abc123'')]\<rparr>)"
    by (simp add: example_defs throwingTokenRefresh_def emit_def)
  from run one two show ?thesis by simp
qed

text \<open>
  The same callback with no \<open>onError\<close>: login-succeeded was invoked and threw, and
  \<open>init\<close> resolves all the same.
\<close>

theorem init_swallows_login_callback_counterexample:
  "init (Response 200 ''OK'' (JsonData (Some ''abc123'')))
      (new_BkperAuth (throwingLogin\<lparr>onError := None\<rparr>) Map.empty page) =
     (Returns,
      \<lparr>config = throwingLogin\<lparr>onError := None\<rparr>,
       baseUrl = ''https://bkper.app'', accessToken = Some ''abc123'',
       cookies = [''already-logged'' \<mapsto> ''true''], location = page,
       trace = [Fetch ''https://bkper.app/auth/refresh'', OnTokenRefresh ''abc123'',
                OnLoginSuccess]\<rparr>) \<and>
   onLoginSuccess (throwingLogin\<lparr>onError := None\<rparr>) = Some (Throws (Error ''boom''))"
  by (simp add: init_def refresh_200_data Let_def checkAccessToken_def truthy_def invoke_def
      example_defs url_defs getRefreshUrl_def emit_def)

subsection \<open>The session-hint cookie\<close>

lemma has200Json_iff:
  "has200Json r \<longleftrightarrow> (\<exists>statusText token. r = Response 200 statusText (JsonData token))"
  by (cases r rule: has200Json.cases) auto

lemma refresh_cookies:
  "cookies (snd (refresh r s)) =
     (if has200Json r then (cookies s)(ALREADY_LOGGED_COOKIE \<mapsto> ''true'') else cookies s)"
  by (cases r rule: attempt_cases;
      auto simp add: refresh_paths has200Json_iff Let_def
        split: option.splits completion.splits if_splits)

lemma checkAccessToken_cookies: "cookies (snd (checkAccessToken s)) = cookies s"
  by (simp add: checkAccessToken_cases split: option.splits)

lemma init_cookies: "cookies (snd (init r s)) = cookies (snd (refresh r s))"
proof (cases "refresh r s")
  case (Pair c s1)
  show ?thesis
  proof (cases c)
    case Returns
    with Pair checkAccessToken_cookies [of s1] show ?thesis
      by (auto simp add: init_refresh_resolved split: prod.splits completion.splits option.splits)
  next
    case (Throws e)
    with Pair show ?thesis
      by (auto simp add: init_refresh_rejected split: option.splits)
  qed
qed

lemma login_cookies: "cookies (snd (login s)) = cookies s"
  by (simp add: login_def split: sum.splits)

lemma logout_cookies: "cookies (snd (logout s)) = cookies s"
  by (simp add: logout_def invoke_def split: option.splits completion.splits)

lemma perform_cookies:
  "cookies (perform c s) =
     (if call200Json c then (cookies s)(ALREADY_LOGGED_COOKIE \<mapsto> ''true'') else cookies s)"
  by (cases c) (simp_all add: refresh_cookies init_cookies login_cookies logout_cookies)

lemma perform_flag:
  "hasLoggedInBefore (perform c s) \<longleftrightarrow> hasLoggedInBefore s \<or> call200Json c"
  by (simp add: hasLoggedInBefore_def perform_cookies)

lemma run_flag:
  "hasLoggedInBefore (run cs s) \<longleftrightarrow> hasLoggedInBefore s \<or> (\<exists>c \<in> set cs. call200Json c)"
  by (induction cs arbitrary: s) (auto simp add: perform_flag)

lemma refresh_resolved_200:
  "fst (refresh r s) = Returns \<Longrightarrow> r = Response 200 statusText body \<Longrightarrow> has200Json r"
  by (cases r rule: attempt_cases; auto simp add: refresh_paths)

lemma call200Json_iff:
  "call200Json c \<longleftrightarrow>
     (\<exists>statusText token.
        c = CallRefresh (Response 200 statusText (JsonData token)) \<or>
        c = CallInit (Response 200 statusText (JsonData token)))"
  by (cases c) (auto simp add: has200Json_iff)

text \<open>
  C5 (as amended). In a fresh session (an empty cookie jar) \<open>hasLoggedInBefore\<close> is
  false; after any sequence of calls to \<open>refresh\<close>, \<open>init\<close>, \<open>login\<close> and
  \<open>logout\<close> it is true exactly when one of them ran a \<open>refresh\<close> that received a
  response with status 200 and a body that parses to a JSON value other than \<open>null\<close>,
  so it is false before the first such call and true from that call on, whatever follows.
  The cookie jar is written on such a response only, which sets the flag, and left as it
  is by every other call; once the flag is there, no sequence of calls removes it. Every
  \<open>refresh\<close> that resolves on a response with status 200 is such a call; the converse
  fails, since the flag is written before \<open>onTokenRefresh\<close> runs.
\<close>

theorem session_hint_flag:
  "\<not> hasLoggedInBefore (new_BkperAuth cfg Map.empty loc) \<and>
   (hasLoggedInBefore (run cs (new_BkperAuth cfg Map.empty loc)) \<longleftrightarrow>
      (\<exists>c \<in> set cs. \<exists>statusText token.
         c = CallRefresh (Response 200 statusText (JsonData token)) \<or>
         c = CallInit (Response 200 statusText (JsonData token)))) \<and>
   cookies (perform c s) =
     (if \<exists>statusText token.
           c = CallRefresh (Response 200 statusText (JsonData token)) \<or>
           c = CallInit (Response 200 statusText (JsonData token))
      then (cookies s)(ALREADY_LOGGED_COOKIE \<mapsto> ''true'')
      else cookies s) \<and>
   (hasLoggedInBefore s \<longrightarrow> hasLoggedInBefore (run cs s)) \<and>
   (fst (refresh r s) = Returns \<and> r = Response 200 statusText body \<longrightarrow>
      (\<exists>token. body = JsonData token) \<and> hasLoggedInBefore (snd (refresh r s)))"
proof -
  have fresh: "\<not> hasLoggedInBefore (new_BkperAuth cfg Map.empty loc)"
    by (simp add: hasLoggedInBefore_def new_BkperAuth_def)
  have resolved:
    "(\<exists>token. body = JsonData token) \<and> hasLoggedInBefore (snd (refresh r s))"
    if "fst (refresh r s) = Returns" "r = Response 200 statusText body"
    using refresh_resolved_200 [OF that] that(2)
    by (auto simp add: hasLoggedInBefore_def refresh_cookies has200Json_iff)
  have sequence: "hasLoggedInBefore (run cs (new_BkperAuth cfg Map.empty loc)) \<longleftrightarrow>
      (\<exists>c \<in> set cs. \<exists>statusText token.
         c = CallRefresh (Response 200 statusText (JsonData token)) \<or>
         c = CallInit (Response 200 statusText (JsonData token)))"
    using fresh run_flag [of cs "new_BkperAuth cfg Map.empty loc"]
    by (simp add: call200Json_iff)
  have step: "cookies (perform c s) =
     (if \<exists>statusText token.
           c = CallRefresh (Response 200 statusText (JsonData token)) \<or>
           c = CallInit (Response 200 statusText (JsonData token))
      then (cookies s)(ALREADY_LOGGED_COOKIE \<mapsto> ''true'')
      else cookies s)"
    using perform_cookies [of c s] by (simp add: call200Json_iff)
  have kept: "hasLoggedInBefore s \<longrightarrow> hasLoggedInBefore (run cs s)"
    using run_flag [of cs s] by blast
  from fresh sequence step kept resolved show ?thesis by blast
qed

text \<open>
  A session: \<open>init\<close> on 401, a login, a 200 with an unreadable body and a call in
  which the provider throws leave the flag unset; a \<open>refresh\<close> on 200 sets it; a 401,
  a failed request and a logout after that leave it set.
\<close>

theorem session_hint_flag_witness:
  "\<not> hasLoggedInBefore (run [CallInit (Response 401 ''Unauthorized'' JsonNull), CallLogin,
         CallRefresh (Response 200 ''OK'' (NotJson (SyntaxError ''Unexpected token <''))),
         CallRefresh (ProviderThrows (Error ''no tenant''))]
       (new_BkperAuth allCallbacks Map.empty page)) \<and>
   hasLoggedInBefore (run [CallInit (Response 401 ''Unauthorized'' JsonNull), CallLogin,
         CallRefresh (Response 200 ''OK'' (JsonData (Some ''abc123'')))]
       (new_BkperAuth allCallbacks Map.empty page)) \<and>
   hasLoggedInBefore (run [CallInit (Response 401 ''Unauthorized'' JsonNull), CallLogin,
         CallRefresh (Response 200 ''OK'' (JsonData (Some ''abc123''))),
         CallRefresh (Response 401 ''Unauthorized'' JsonNull),
         CallInit (NetworkFailure (TypeError ''Failed to fetch'')), CallLogout]
       (new_BkperAuth allCallbacks Map.empty page))"
  using session_hint_flag [where cfg = allCallbacks and loc = page and cs =
      "[CallInit (Response 401 ''Unauthorized'' JsonNull), CallLogin,
         CallRefresh (Response 200 ''OK'' (NotJson (SyntaxError ''Unexpected token <''))),
         CallRefresh (ProviderThrows (Error ''no tenant''))]"
      and c = CallLogin and s = "new_BkperAuth allCallbacks Map.empty page"
      and r = "NetworkFailure (Error '''')" and statusText = "''OK''" and body = JsonNull]
    session_hint_flag [where cfg = allCallbacks and loc = page and cs =
      "[CallInit (Response 401 ''Unauthorized'' JsonNull), CallLogin,
         CallRefresh (Response 200 ''OK'' (JsonData (Some ''abc123'')))]"
      and c = CallLogin and s = "new_BkperAuth allCallbacks Map.empty page"
      and r = "NetworkFailure (Error '''')" and statusText = "''OK''" and body = JsonNull]
    session_hint_flag [where cfg = allCallbacks and loc = page and cs =
      "[CallInit (Response 401 ''Unauthorized'' JsonNull), CallLogin,
         CallRefresh (Response 200 ''OK'' (JsonData (Some ''abc123''))),
         CallRefresh (Response 401 ''Unauthorized'' JsonNull),
         CallInit (NetworkFailure (TypeError ''Failed to fetch'')), CallLogout]"
      and c = CallLogin and s = "new_BkperAuth allCallbacks Map.empty page"
      and r = "NetworkFailure (Error '''')" and statusText = "''OK''" and body = JsonNull]
  by simp

text \<open>
  A \<open>refresh\<close> that fails and writes the flag: status 200 with a token, and an
  \<open>onTokenRefresh\<close> that throws. The call rejects, and the flag is set.
\<close>

theorem flag_set_by_rejected_refresh_counterexample:
  "\<not> hasLoggedInBefore (new_BkperAuth throwingTokenRefresh Map.empty page) \<and>
   fst (refresh (Response 200 ''OK'' (JsonData (Some ''abc123'')))
      (new_BkperAuth throwingTokenRefresh Map.empty page)) = Throws (TypeError ''abc123'') \<and>
   hasLoggedInBefore (snd (refresh (Response 200 ''OK'' (JsonData (Some ''abc123'')))
      (new_BkperAuth throwingTokenRefresh Map.empty page)))"
  by (simp add: refresh_paths Let_def example_defs throwingTokenRefresh_def hasLoggedInBefore_def
      url_defs)

subsection \<open>The redirect and refresh URLs\<close>

lemma foldl_addParam:
  "foldl addParam url params =
     url @ concat (map (\<lambda>(key, value). ''&'' @ key @ ''='' @ encodeURIComponent value) params)"
  by (induction params arbitrary: url) (simp_all add: addParam_def split: prod.splits)

lemma getLoginUrl_closed:
  "location s = Some href \<Longrightarrow>
   getLoginUrl s = Inr (baseUrl s @ ''/auth/login?returnUrl='' @ encodeURIComponent href @
     concat (map (\<lambda>(key, value). ''&'' @ key @ ''='' @ encodeURIComponent value)
       (case getAdditionalAuthParams (config s) of None \<Rightarrow> [] | Some params \<Rightarrow> params)))"
  by (simp add: getLoginUrl_def Let_def foldl_addParam AUTH_LOGIN_PATH_def split: option.splits)

text \<open>
  C6. For every call to \<open>login\<close> on a page with location \<open>href\<close>, the call returns and
  its one effect is the navigation to \<open>baseUrl + "/auth/login"\<close> with the query
  \<open>returnUrl=\<close> the URL-encoded \<open>href\<close>, followed by one \<open>&key=value\<close> per entry of
  the provider's output, each value URL-encoded on its own. Every call to \<open>login\<close> leaves
  the access token as it is and has no effect but a navigation: it invokes no callback.
  (Where \<open>self.location\<close> is undefined the call throws and does nothing.)
\<close>

theorem login_navigates:
  "(location s = Some href \<longrightarrow>
      login s =
        (Returns,
         emit (Assign (baseUrl s @ ''/auth/login?returnUrl='' @ encodeURIComponent href @
           concat (map (\<lambda>(key, value). ''&'' @ key @ ''='' @ encodeURIComponent value)
             (case getAdditionalAuthParams (config s) of
                None \<Rightarrow> []
              | Some params \<Rightarrow> params)))) s)) \<and>
   (location s = None \<longrightarrow> (\<exists>e. login s = (Throws e, s))) \<and>
   getAccessToken (snd (login s)) = getAccessToken s \<and>
   (\<forall>ev \<in> set (since s (snd (login s))). \<exists>url. ev = Assign url)"
proof (cases "location s")
  case None
  then show ?thesis by (simp add: login_def getLoginUrl_def since_def)
next
  case (Some h)
  then show ?thesis by (simp add: login_def getLoginUrl_closed getAccessToken_def)
qed

text \<open>The page of the test setup, with a provider that returns \<open>{tenant: "acme"}\<close>.\<close>

theorem login_navigates_witness:
  "location (new_BkperAuth tenantConfig Map.empty page) = Some ''http://localhost:3000/app'' \<and>
   login (new_BkperAuth tenantConfig Map.empty page) =
     (Returns,
      \<lparr>config = tenantConfig, baseUrl = ''https://bkper.app'', accessToken = None,
       cookies = Map.empty, location = page,
       trace = [Assign
         ''https://bkper.app/auth/login?returnUrl=http%3A%2F%2Flocalhost%3A3000%2Fapp&tenant=acme'']\<rparr>)"
proof -
  have loc:
    "location (new_BkperAuth tenantConfig Map.empty page) = Some ''http://localhost:3000/app''"
    by (simp add: example_defs)
  from login_navigates [of "new_BkperAuth tenantConfig Map.empty page"
      "''http://localhost:3000/app''"] loc
  show ?thesis
    by (simp add: example_defs url_defs emit_def encodeURIComponent_def
        uriUnreserved_def alphanumeric_def percentEncode_def hexDigit_def)
qed

text \<open>
  C7. For every call to \<open>logout\<close>, the effects are, in this order, the invocation of
  \<open>onLogout\<close> when it is configured and then, when that returned and there is a location
  to assign, the navigation to exactly \<open>baseUrl + "/auth/logout"\<close>, whatever the
  extra-params provider returns; the access token is left as it is.
\<close>

theorem logout_notifies_then_navigates:
  "since s (snd (logout s)) =
     (case onLogout (config s) of None \<Rightarrow> [] | Some outcome \<Rightarrow> [OnLogout]) @
     (if (onLogout (config s) = None \<or> onLogout (config s) = Some Returns) \<and> location s \<noteq> None
      then [Assign (baseUrl s @ ''/auth/logout'')] else []) \<and>
   getAccessToken (snd (logout s)) = getAccessToken s \<and>
   fst (logout s) = (case onLogout (config s) of None \<Rightarrow> Returns | Some outcome \<Rightarrow> outcome)"
  by (auto simp add: logout_def invoke_def getLogoutUrl_def AUTH_LOGOUT_PATH_def since_def
      getAccessToken_def split: option.splits completion.splits)

text \<open>A logged-in client with the provider configured: the callback, then the bare URL.\<close>

theorem logout_notifies_then_navigates_witness:
  "logout ((new_BkperAuth tenantConfig Map.empty page)\<lparr>accessToken := Some ''abc123''\<rparr>) =
     (Returns,
      \<lparr>config = tenantConfig, baseUrl = ''https://bkper.app'', accessToken = Some ''abc123'',
       cookies = Map.empty, location = page,
       trace = [OnLogout, Assign ''https://bkper.app/auth/logout'']\<rparr>) \<and>
   since ((new_BkperAuth tenantConfig Map.empty page)\<lparr>accessToken := Some ''abc123''\<rparr>)
     (snd (logout ((new_BkperAuth tenantConfig Map.empty page)\<lparr>accessToken := Some ''abc123''\<rparr>))) =
     [OnLogout, Assign ''https://bkper.app/auth/logout'']"
  using logout_notifies_then_navigates
    [of "(new_BkperAuth tenantConfig Map.empty page)\<lparr>accessToken := Some ''abc123''\<rparr>"]
  by (simp add: logout_def invoke_def getLogoutUrl_def example_defs url_defs emit_def)

subsection \<open>The query string of the refresh URL\<close>

lemma hexDigit_small: "n < 16 \<Longrightarrow> hexDigit n = ''0123456789ABCDEF'' ! n"
  by (simp add: hexDigit_def)

lemma of_char_div_16: "(of_char c :: nat) div 16 < 16"
proof -
  have "(of_char c :: nat) < 16 * 16"
    using nat_of_char_less_256 [of c] by simp
  then show ?thesis
    by (rule less_mult_imp_div_less)
qed

lemma percentEncode_digits:
  "percentEncode c =
     [CHR ''%'', ''0123456789ABCDEF'' ! (of_char c div 16),
      ''0123456789ABCDEF'' ! (of_char c mod 16)]"
  by (simp add: percentEncode_def hexDigit_small of_char_div_16)

lemma formEncode_Nil: "formEncode [] = []"
  by (simp add: formEncode_def)

lemma formEncode_Cons:
  "formEncode (c # cs) =
     (if c = CHR '' '' then ''+''
      else if c \<in> set ''ABCDEFGHIJKLMNOPQRSTUVWXYZabcdefghijklmnopqrstuvwxyz0123456789*-._''
      then [c]
      else [CHR ''%'', ''0123456789ABCDEF'' ! (of_char c div 16),
            ''0123456789ABCDEF'' ! (of_char c mod 16)]) @ formEncode cs"
proof -
  have safe: "alphanumeric c \<or> c \<in> set ''*-._'' \<longleftrightarrow>
      c \<in> set ''ABCDEFGHIJKLMNOPQRSTUVWXYZabcdefghijklmnopqrstuvwxyz0123456789*-._''"
    unfolding alphanumeric_def by auto
  show ?thesis
    using safe by (simp add: formEncode_def percentEncode_digits)
qed

lemma hex_digit_safe:
  "n < 16 \<Longrightarrow> ''0123456789ABCDEF'' ! n \<in>
     set ''ABCDEFGHIJKLMNOPQRSTUVWXYZabcdefghijklmnopqrstuvwxyz0123456789*-._+%''"
proof -
  assume "n < 16"
  then have "''0123456789ABCDEF'' ! n \<in> set ''0123456789ABCDEF''"
    by (intro nth_mem) simp
  then show ?thesis by auto
qed

lemma formEncode_alphabet:
  "set (formEncode cs) \<subseteq>
     set ''ABCDEFGHIJKLMNOPQRSTUVWXYZabcdefghijklmnopqrstuvwxyz0123456789*-._+%''"
proof (induction cs)
  case Nil
  show ?case by (simp add: formEncode_Nil)
next
  case (Cons c cs)
  have hi: "''0123456789ABCDEF'' ! (of_char c div 16) \<in>
     set ''ABCDEFGHIJKLMNOPQRSTUVWXYZabcdefghijklmnopqrstuvwxyz0123456789*-._+%''"
    by (rule hex_digit_safe) (rule of_char_div_16)
  have lo: "''0123456789ABCDEF'' ! (of_char c mod 16) \<in>
     set ''ABCDEFGHIJKLMNOPQRSTUVWXYZabcdefghijklmnopqrstuvwxyz0123456789*-._+%''"
    by (rule hex_digit_safe) simp
  have head: "set (if c = CHR '' '' then ''+''
      else if c \<in> set ''ABCDEFGHIJKLMNOPQRSTUVWXYZabcdefghijklmnopqrstuvwxyz0123456789*-._''
      then [c]
      else [CHR ''%'', ''0123456789ABCDEF'' ! (of_char c div 16),
            ''0123456789ABCDEF'' ! (of_char c mod 16)]) \<subseteq>
     set ''ABCDEFGHIJKLMNOPQRSTUVWXYZabcdefghijklmnopqrstuvwxyz0123456789*-._+%''"
    using hi lo by auto
  show ?case
    unfolding formEncode_Cons using head Cons.IH by (simp only: set_append Un_subset_iff)
qed

lemma joinAmp_closed: "joinAmp (p # ps) = p @ concat (map (\<lambda>q. ''&'' @ q) ps)"
  by (induction ps arbitrary: p) simp_all

lemma URLSearchParams_toString_closed:
  "URLSearchParams_toString [] = []"
  "URLSearchParams_toString ((key, value) # params) =
     formEncode key @ ''='' @ formEncode value @
     concat (map (\<lambda>(key, value). ''&'' @ formEncode key @ ''='' @ formEncode value) params)"
  by (simp_all add: URLSearchParams_toString_def joinAmp_closed comp_def split_def)

lemma getRefreshUrl_closed:
  "getRefreshUrl s =
     baseUrl s @ ''/auth/refresh'' @
       (case getAdditionalAuthParams (config s) of
          None \<Rightarrow> []
        | Some [] \<Rightarrow> []
        | Some ((key, value) # params) \<Rightarrow>
            ''?'' @ formEncode key @ ''='' @ formEncode value @
            concat (map (\<lambda>(key, value). ''&'' @ formEncode key @ ''='' @ formEncode value)
              params))"
  by (simp add: getRefreshUrl_def Let_def AUTH_REFRESH_PATH_def URLSearchParams_toString_closed
      split: option.splits list.splits prod.splits)

text \<open>
  C8. The refresh URL is \<open>baseUrl + "/auth/refresh"\<close>, followed, when a provider is
  configured and its output is not empty, by \<open>?\<close> and the provider's output
  serialized as a query string: the pairs \<open>name=value\<close> in the order of the entries,
  joined by \<open>&\<close>, where names and values keep letters, digits and \<open>* - . _\<close>,
  a space becomes \<open>+\<close> and every other byte becomes \<open>%\<close> and its two upper-case
  hexadecimal digits, so that the query holds no other character. For an absent provider
  and for an empty output nothing follows, not even the \<open>?\<close>. It is the URL that
  \<open>refresh\<close> requests. When the provider returns \<open>{tenant: "acme"}\<close> the refresh
  URL ends with \<open>?tenant=acme\<close> and the login URL with \<open>&tenant=acme\<close>.
\<close>

theorem refresh_url:
  "getRefreshUrl s =
     baseUrl s @ ''/auth/refresh'' @
       (case getAdditionalAuthParams (config s) of
          None \<Rightarrow> []
        | Some [] \<Rightarrow> []
        | Some ((key, value) # params) \<Rightarrow>
            ''?'' @ formEncode key @ ''='' @ formEncode value @
            concat (map (\<lambda>(key, value). ''&'' @ formEncode key @ ''='' @ formEncode value)
              params)) \<and>
   formEncode [] = [] \<and>
   formEncode (c # cs) =
     (if c = CHR '' '' then ''+''
      else if c \<in> set ''ABCDEFGHIJKLMNOPQRSTUVWXYZabcdefghijklmnopqrstuvwxyz0123456789*-._''
      then [c]
      else [CHR ''%'', ''0123456789ABCDEF'' ! (of_char c div 16),
            ''0123456789ABCDEF'' ! (of_char c mod 16)]) @ formEncode cs \<and>
   set (formEncode cs) \<subseteq>
     set ''ABCDEFGHIJKLMNOPQRSTUVWXYZabcdefghijklmnopqrstuvwxyz0123456789*-._+%'' \<and>
   (getAdditionalAuthParams (config s) = Some [] \<longrightarrow>
      getRefreshUrl s = baseUrl s @ ''/auth/refresh'') \<and>
   (getAdditionalAuthParams (config s) = Some [(''tenant'', ''acme'')] \<longrightarrow>
      getRefreshUrl s = baseUrl s @ ''/auth/refresh?tenant=acme'' \<and>
      (\<forall>href. location s = Some href \<longrightarrow>
         getLoginUrl s =
           Inr (baseUrl s @ ''/auth/login?returnUrl='' @ encodeURIComponent href @
                ''&tenant=acme''))) \<and>
   (\<exists>evs. since s (snd (refresh (Response status statusText body) s)) =
      Fetch (getRefreshUrl s) # evs) \<and>
   since s (snd (refresh (NetworkFailure e) s)) = [Fetch (getRefreshUrl s)]"
proof -
  have tenant: "formEncode ''tenant'' = ''tenant''" "formEncode ''acme'' = ''acme''"
    by (simp_all add: formEncode_def alphanumeric_def)
  have enc: "encodeURIComponent ''acme'' = ''acme''"
    by (simp add: encodeURIComponent_def uriUnreserved_def alphanumeric_def)
  have fetch: "\<exists>evs. since s (snd (refresh (Response status statusText body) s)) =
      Fetch (getRefreshUrl s) # evs"
    by (cases "Response status statusText body" rule: attempt_cases;
      auto simp add: refresh_paths Let_def split: option.splits completion.splits if_splits)
  have network: "since s (snd (refresh (NetworkFailure e) s)) = [Fetch (getRefreshUrl s)]"
    by (simp add: refresh_paths)
  have scenario: "getAdditionalAuthParams (config s) = Some [(''tenant'', ''acme'')] \<longrightarrow>
      getRefreshUrl s = baseUrl s @ ''/auth/refresh?tenant=acme'' \<and>
      (\<forall>href. location s = Some href \<longrightarrow>
         getLoginUrl s =
           Inr (baseUrl s @ ''/auth/login?returnUrl='' @ encodeURIComponent href @
                ''&tenant=acme''))"
    using tenant enc by (auto simp add: getRefreshUrl_closed getLoginUrl_closed)
  have empty: "getAdditionalAuthParams (config s) = Some [] \<longrightarrow>
      getRefreshUrl s = baseUrl s @ ''/auth/refresh''"
    by (simp add: getRefreshUrl_closed)
  from getRefreshUrl_closed [of s] formEncode_Nil formEncode_Cons [of c cs]
    formEncode_alphabet [of cs] empty scenario fetch network
  show ?thesis by blast
qed

text \<open>
  The scenario of the specification on the page of the test setup; a provider with two
  entries whose second name and value need encoding; and a provider that returns \<open>{}\<close>.
\<close>

theorem refresh_url_witness:
  "getAdditionalAuthParams (config (new_BkperAuth tenantConfig Map.empty page)) =
     Some [(''tenant'', ''acme'')] \<and>
   getRefreshUrl (new_BkperAuth tenantConfig Map.empty page) =
     ''https://bkper.app/auth/refresh?tenant=acme'' \<and>
   getLoginUrl (new_BkperAuth tenantConfig Map.empty page) =
     Inr ''https://bkper.app/auth/login?returnUrl=http%3A%2F%2Flocalhost%3A3000%2Fapp&tenant=acme'' \<and>
   getRefreshUrl (new_BkperAuth twoParams Map.empty page) =
     ''https://bkper.app/auth/refresh?tenant=acme&return+to=a%26b%3Dc%2Fd%7E'' \<and>
   getRefreshUrl (new_BkperAuth (allCallbacks\<lparr>getAdditionalAuthParams := Some []\<rparr>)
     Map.empty page) = ''https://bkper.app/auth/refresh''"
proof -
  have p: "getAdditionalAuthParams (config (new_BkperAuth tenantConfig Map.empty page)) =
      Some [(''tenant'', ''acme'')]"
    by (simp add: example_defs)
  have q: "getAdditionalAuthParams (config (new_BkperAuth
      (allCallbacks\<lparr>getAdditionalAuthParams := Some []\<rparr>) Map.empty page)) = Some []"
    by (simp add: example_defs)
  from refresh_url [where s = "new_BkperAuth tenantConfig Map.empty page"
      and c = "CHR ''a''" and cs = "''b''" and status = 200 and statusText = "''OK''"
      and body = JsonNull and e = "Error ''''"] p
  have one: "getRefreshUrl (new_BkperAuth tenantConfig Map.empty page) =
     ''https://bkper.app/auth/refresh?tenant=acme'' \<and>
   getLoginUrl (new_BkperAuth tenantConfig Map.empty page) =
     Inr ''https://bkper.app/auth/login?returnUrl=http%3A%2F%2Flocalhost%3A3000%2Fapp&tenant=acme''"
    by (simp add: example_defs url_defs encodeURIComponent_def formEncode_def
        uriUnreserved_def alphanumeric_def percentEncode_def hexDigit_def)
  from refresh_url [where s = "new_BkperAuth twoParams Map.empty page"
      and c = "CHR ''a''" and cs = "''b''" and status = 200 and statusText = "''OK''"
      and body = JsonNull and e = "Error ''''"]
  have two: "getRefreshUrl (new_BkperAuth twoParams Map.empty page) =
     ''https://bkper.app/auth/refresh?tenant=acme&return+to=a%26b%3Dc%2Fd%7E''"
    by (simp add: example_defs twoParams_def url_defs formEncode_def alphanumeric_def
        percentEncode_def hexDigit_def)
  from refresh_url [where s = "new_BkperAuth (allCallbacks\<lparr>getAdditionalAuthParams := Some []\<rparr>)
        Map.empty page"
      and c = "CHR ''a''" and cs = "''b''" and status = 200 and statusText = "''OK''"
      and body = JsonNull and e = "Error ''''"] q
  have three: "getRefreshUrl (new_BkperAuth (allCallbacks\<lparr>getAdditionalAuthParams := Some []\<rparr>)
     Map.empty page) = ''https://bkper.app/auth/refresh''"
    by (simp add: example_defs url_defs)
  from p one two three show ?thesis by simp
qed

end
